theory Spec2Isabelle
  imports Main "HOL-Library.AList" "HOL-Library.Sublist"
begin

section \<open>The package manager of arduino-cli (cores/packagemanager/package\_manager.go)\<close>

text \<open>
  The file under verification is \<^verbatim>\<open>cores/packagemanager/package_manager.go\<close>. It
  navigates the registry of packages, platforms, boards and tools that the package
  \<^verbatim>\<open>cores\<close> declares. That package is not part of the verified source: its types
  and the few accessors the package manager calls are modelled below, each marked so.

  Go maps (\<^verbatim>\<open>map[string]*T\<close>) are association lists. A \<^verbatim>\<open>range\<close> loop over a map
  visits the entries in an order Go leaves unspecified; the model visits them in list
  order, and every theorem holds for every list, hence for every order of visit. Pointers
  held by the registry are the values they point to; a back-reference (a release to its
  tool, a board to its platform release) is the record of what the package manager reads
  through it. A handle of the fluent API holds a pointer that is nil when the lookup
  failed, so there the pointer is an option, and dereferencing nil is the panic it is in
  Go.
\<close>

subsection \<open>Data model (package cores)\<close>

text \<open>
  Modelled from the spec: the type \<^verbatim>\<open>cores.ToolDependency\<close> is missing from the
  source; it is the value (tool packager, tool name, exact version) a platform declares,
  with the field names \<^verbatim>\<open>FindToolDependency\<close> reads.
\<close>

record ToolDependency =
  ToolName :: string
  ToolVersion :: string
  ToolPackager :: string

text \<open>
  Modelled from the spec: the type \<^verbatim>\<open>cores.Tool\<close> as a release sees it through its
  back-reference \<^verbatim>\<open>rel.Tool\<close>: the tool's name and (through \<^verbatim>\<open>Tool.Package\<close>) the
  name of the package that owns it.
\<close>

record ToolRef =
  ToolRef_Name :: string
  ToolRef_Package :: string

text \<open>
  Modelled from the spec: \<^verbatim>\<open>Tool.String()\<close> is missing from the source; the
  identity of a tool is the pair (package name, tool name), rendered "packager:tool".
\<close>

definition Tool_String :: "ToolRef \<Rightarrow> string" where
  "Tool_String t = ToolRef_Package t @ '':'' @ ToolRef_Name t"

text \<open>
  Modelled from the spec: \<^verbatim>\<open>cores.ToolRelease\<close> has a version, an installed flag
  (\<^verbatim>\<open>IsInstalled()\<close>) and belongs to exactly one tool (\<^verbatim>\<open>Tool\<close>).
\<close>

record ToolRelease =
  Version :: string
  Installed :: bool
  ToolRelease_Tool :: ToolRef

text \<open>
  Modelled from the spec: \<^verbatim>\<open>cores.Tool\<close> is identified by name within its package
  and owns a mapping of releases keyed by version string.
\<close>

record Tool =
  Tool_Name :: string
  Tool_Package :: string
  Tool_Releases :: "(string \<times> ToolRelease) list"

definition Tool_ref :: "Tool \<Rightarrow> ToolRef" where
  "Tool_ref t = \<lparr>ToolRef_Name = Tool_Name t, ToolRef_Package = Tool_Package t\<rparr>"

text \<open>
  Modelled from the spec: \<^verbatim>\<open>Tool.GetRelease(version)\<close> is missing from the source;
  it is the lookup in the tool's mapping of releases keyed by version string, nil when
  the version is absent.
\<close>

definition GetRelease :: "Tool \<Rightarrow> string \<Rightarrow> ToolRelease option" where
  "GetRelease t version = map_of (Tool_Releases t) version"

text \<open>
  Modelled from the spec: \<^verbatim>\<open>Tool.GetLatestInstalled()\<close> is missing from the source;
  it is the highest version among the installed releases of the tool, nil when none is
  installed. The spec leaves the order on version strings open, so the order
  \<open>newer\<close> is a parameter: \<open>newer v w\<close> says that version \<open>v\<close> is later than \<open>w\<close>.
\<close>

definition latest_step :: "(string \<Rightarrow> string \<Rightarrow> bool) \<Rightarrow> string \<times> ToolRelease \<Rightarrow>
    ToolRelease option \<Rightarrow> ToolRelease option" where
  "latest_step newer kv latest =
     (if Installed (snd kv) then
        (case latest of
           None \<Rightarrow> Some (snd kv)
         | Some l \<Rightarrow> if newer (Version (snd kv)) (Version l) then Some (snd kv) else Some l)
      else latest)"

definition GetLatestInstalled :: "(string \<Rightarrow> string \<Rightarrow> bool) \<Rightarrow> Tool \<Rightarrow> ToolRelease option" where
  "GetLatestInstalled newer t = fold (latest_step newer) (Tool_Releases t) None"

text \<open>
  Modelled from the spec: the type \<^verbatim>\<open>cores.Board\<close> is missing from the source; a
  board has an identifier and a back-reference to its platform release. The
  back-reference \<^verbatim>\<open>board.PlatformRelease\<close> is the part of the release that
  \<^verbatim>\<open>FindToolsRequiredForBoard\<close> reads through it, the declared tool dependencies.
\<close>

record PlatformReleaseRef =
  Dependencies :: "ToolDependency list"

record Board =
  BoardId :: string
  PlatformRelease :: PlatformReleaseRef

text \<open>
  Modelled from the spec: the types \<^verbatim>\<open>cores.PlatformRelease\<close> and
  \<^verbatim>\<open>cores.Platform\<close> are missing from the source. A platform has an architecture
  and a set of versioned releases; a release has an installed mark and, as the source
  reads it (\<^verbatim>\<open>platform.Boards\<close>), the boards it defines.
\<close>

record PlatformRelease =
  PlatformRelease_Installed :: bool
  Boards :: "Board list"

record Platform =
  Architecture :: string
  Platform_Releases :: "(string \<times> PlatformRelease) list"

text \<open>
  Modelled from the spec: \<^verbatim>\<open>Platform.GetInstalled()\<close> is missing from the source;
  it is the member of the platform's release set that is marked installed (there is at
  most one), nil when there is none.
\<close>

definition GetInstalled :: "Platform \<Rightarrow> PlatformRelease option" where
  "GetInstalled p = find PlatformRelease_Installed (map snd (Platform_Releases p))"

text \<open>
  Modelled from the spec: the type \<^verbatim>\<open>cores.Package\<close> is missing from the source;
  a package has a name, a mapping of platforms keyed by architecture and a mapping of
  tools keyed by tool name.
\<close>

record Package =
  Package_Name :: string
  Platforms :: "(string \<times> Platform) list"
  Tools :: "(string \<times> Tool) list"

subsection \<open>Errors and panics\<close>

text \<open>
  One constructor for each \<^verbatim>\<open>errors.New\<close> and \<^verbatim>\<open>fmt.Errorf\<close> of the source, with
  the values its format string interpolates.
\<close>

datatype error =
    IncorrectFqbnFormat
  | PlatformNotInstalled
  | BoardNotFound
  | PackageNotFound string
  | ToolNotFound string string
  | ReleaseNotFound string string
  | ToolReleaseNotFound ToolDependency

text \<open>
  The message of each error. The rendering of a \<^verbatim>\<open>*cores.ToolDependency\<close> under
  \<^verbatim>\<open>%s\<close> is not in the source and is the parameter \<open>dep_string\<close>.
\<close>

fun error_message :: "(ToolDependency \<Rightarrow> string) \<Rightarrow> error \<Rightarrow> string" where
  "error_message dep_string IncorrectFqbnFormat = ''incorrect format for fqbn''"
| "error_message dep_string PlatformNotInstalled = ''platform not installed''"
| "error_message dep_string BoardNotFound = ''board not found''"
| "error_message dep_string (PackageNotFound name) =
     ''package '' @ [CHR 0x27] @ name @ [CHR 0x27] @ '' not found''"
| "error_message dep_string (ToolNotFound name pkg) =
     ''tool '' @ [CHR 0x27] @ name @ [CHR 0x27] @ '' not found in package ''
       @ [CHR 0x27] @ pkg @ [CHR 0x27]"
| "error_message dep_string (ReleaseNotFound version tool) =
     ''release '' @ version @ '' not found for tool '' @ tool"
| "error_message dep_string (ToolReleaseNotFound dep) =
     ''tool release not found: '' @ dep_string dep"

text \<open>
  A panic aborts the call: no value and no error reach the caller. A function that can
  panic returns \<open>panic + 'a\<close>.
\<close>

datatype panic =
    NilPointerDereference
  | PanicMessage string

subsection \<open>The package manager and its lifecycle\<close>

text \<open>
  \<^verbatim>\<open>PackageManager\<close>: the package collection and the event handler, an interface
  value that is nil until one is registered. The type of handlers is a parameter.
\<close>

record 'h PackageManager =
  packages :: "(string \<times> Package) list"
  eventHandler :: "'h option"

text \<open>
  Modelled from the spec: \<^verbatim>\<open>cores.NewPackages()\<close> is missing from the source; it
  creates the empty package collection.
\<close>

definition NewPackages :: "(string \<times> Package) list" where
  "NewPackages = []"

definition NewPackageManager :: "'h PackageManager" where
  "NewPackageManager = \<lparr>packages = NewPackages, eventHandler = None\<rparr>"

definition Clear :: "'h PackageManager \<Rightarrow> 'h PackageManager" where
  "Clear pm = pm\<lparr>packages := NewPackages\<rparr>"

definition GetPackages :: "'h PackageManager \<Rightarrow> (string \<times> Package) list" where
  "GetPackages pm = packages pm"

definition RegisterEventHandler ::
    "'h PackageManager \<Rightarrow> 'h option \<Rightarrow> panic + 'h PackageManager" where
  "RegisterEventHandler pm h =
     (if eventHandler pm \<noteq> None
      then Inl (PanicMessage
        (''Don'' @ [CHR 0x27] @
         ''t try to register another event handler to the PackageManager yet!''))
      else Inr (pm\<lparr>eventHandler := h\<rparr>))"

text \<open>
  \<^verbatim>\<open>GetEventHandlers\<close> returns a fresh slice holding one pointer, the address of the
  field \<^verbatim>\<open>pm.eventHandler\<close>; an element of the result is what that pointer reads.
\<close>

definition GetEventHandlers :: "'h PackageManager \<Rightarrow> 'h option list" where
  "GetEventHandlers pm = [] @ [eventHandler pm]"

subsection \<open>Board lookup by FQBN\<close>

text \<open>
  \<^verbatim>\<open>strings.Split(s, sep)\<close> for a separator of one character: the pieces of \<open>s\<close>
  between the occurrences of the separator, empty pieces included.
\<close>

fun Split :: "string \<Rightarrow> char \<Rightarrow> string list" where
  "Split [] sep = [[]]"
| "Split (c # cs) sep =
     (if c = sep then [] # Split cs sep
      else (case Split cs sep of
              [] \<Rightarrow> [[c]]
            | s # ss \<Rightarrow> (c # s) # ss))"

text \<open>
  The three nested loops of \<^verbatim>\<open>FindBoardWithFQBN\<close>. A loop returns \<open>Some r\<close> when it
  executes a \<^verbatim>\<open>return\<close> and \<open>None\<close> when it runs to its end. (The source also prints
  the two package names to standard output at each package it visits; standard output
  is not modelled.)
\<close>

fun find_board :: "Board list \<Rightarrow> string \<Rightarrow> Board option" where
  "find_board [] boardID = None"
| "find_board (board # rest) boardID =
     (if BoardId board = boardID then Some board else find_board rest boardID)"

fun search_platforms ::
    "(string \<times> Platform) list \<Rightarrow> string \<Rightarrow> string \<Rightarrow> (error + Board) option" where
  "search_platforms [] platformArch boardID = None"
| "search_platforms ((k, targetPlatform) # rest) platformArch boardID =
     (if Architecture targetPlatform \<noteq> platformArch
      then search_platforms rest platformArch boardID
      else (case GetInstalled targetPlatform of
              None \<Rightarrow> Some (Inl PlatformNotInstalled)
            | Some platform \<Rightarrow>
                (case find_board (Boards platform) boardID of
                   Some board \<Rightarrow> Some (Inr board)
                 | None \<Rightarrow> search_platforms rest platformArch boardID)))"

fun search_packages ::
    "(string \<times> Package) list \<Rightarrow> string \<Rightarrow> string \<Rightarrow> string \<Rightarrow> (error + Board) option" where
  "search_packages [] packageName platformArch boardID = None"
| "search_packages ((k, targetPackage) # rest) packageName platformArch boardID =
     (if Package_Name targetPackage \<noteq> packageName
      then search_packages rest packageName platformArch boardID
      else (case search_platforms (Platforms targetPackage) platformArch boardID of
              Some r \<Rightarrow> Some r
            | None \<Rightarrow> search_packages rest packageName platformArch boardID))"

definition FindBoardWithFQBN :: "'h PackageManager \<Rightarrow> string \<Rightarrow> error + Board" where
  "FindBoardWithFQBN pm fqbn =
     (let fqbnParts = Split fqbn (CHR '':'') in
      if length fqbnParts < 3 \<or> length fqbnParts > 4 then Inl IncorrectFqbnFormat
      else
        (let packageName = fqbnParts ! 0;
             platformArch = fqbnParts ! 1;
             boardID = fqbnParts ! 2
         in case search_packages (packages pm) packageName platformArch boardID of
              Some r \<Rightarrow> r
            | None \<Rightarrow> Inl BoardNotFound))"

subsection \<open>The fluent resolution chain\<close>

record packageActions =
  aPackage :: "Package option"
  pa_forwardError :: "error option"

record toolActions =
  tool :: "Tool option"
  ta_forwardError :: "error option"

record toolReleaseActions =
  release :: "ToolRelease option"
  tr_forwardError :: "error option"

text \<open>
  The methods the source declares on each handle type: \<^verbatim>\<open>Tool\<close> on
  \<^verbatim>\<open>*packageActions\<close>; \<^verbatim>\<open>Get\<close>, \<^verbatim>\<open>IsInstalled\<close> and \<^verbatim>\<open>Release\<close> on
  \<^verbatim>\<open>*toolActions\<close>; \<^verbatim>\<open>Get\<close> on \<^verbatim>\<open>*toolReleaseActions\<close>.
\<close>

definition packageActions_methods :: "string list" where
  "packageActions_methods = [''Tool'']"

definition toolActions_methods :: "string list" where
  "toolActions_methods = [''Get'', ''IsInstalled'', ''Release'']"

definition toolReleaseActions_methods :: "string list" where
  "toolReleaseActions_methods = [''Get'']"

definition Package :: "'h PackageManager \<Rightarrow> string \<Rightarrow> packageActions" where
  "Package pm name =
     (let thePackage = map_of (packages pm) name;
          err = (if thePackage = None then Some (PackageNotFound name) else None)
      in \<lparr>aPackage = thePackage, pa_forwardError = err\<rparr>)"

definition packageActions_Tool :: "packageActions \<Rightarrow> string \<Rightarrow> panic + toolActions" where
  "packageActions_Tool pa name =
     (case pa_forwardError pa of
        Some err \<Rightarrow> Inr \<lparr>tool = None, ta_forwardError = Some err\<rparr>
      | None \<Rightarrow>
          (case aPackage pa of
             None \<Rightarrow> Inl NilPointerDereference
           | Some p \<Rightarrow>
               (case map_of (Tools p) name of
                  None \<Rightarrow> Inr \<lparr>tool = None,
                                ta_forwardError = Some (ToolNotFound name (Package_Name p))\<rparr>
                | Some t \<Rightarrow> Inr \<lparr>tool = Some t, ta_forwardError = None\<rparr>)))"

definition toolActions_Get :: "toolActions \<Rightarrow> Tool option \<times> error option" where
  "toolActions_Get ta =
     (case ta_forwardError ta of
        None \<Rightarrow> (tool ta, None)
      | Some err \<Rightarrow> (None, Some err))"

definition toolActions_IsInstalled :: "toolActions \<Rightarrow> panic + (bool \<times> error option)" where
  "toolActions_IsInstalled ta =
     (case ta_forwardError ta of
        Some err \<Rightarrow> Inr (False, Some err)
      | None \<Rightarrow>
          (case tool ta of
             None \<Rightarrow> Inl NilPointerDereference
           | Some t \<Rightarrow>
               if list_ex (\<lambda>kv. Installed (snd kv)) (Tool_Releases t)
               then Inr (True, None) else Inr (False, None)))"

definition toolActions_Release :: "toolActions \<Rightarrow> string \<Rightarrow> panic + toolReleaseActions" where
  "toolActions_Release ta version =
     (case ta_forwardError ta of
        Some err \<Rightarrow> Inr \<lparr>release = None, tr_forwardError = Some err\<rparr>
      | None \<Rightarrow>
          (case tool ta of
             None \<Rightarrow> Inl NilPointerDereference
           | Some t \<Rightarrow>
               (case GetRelease t version of
                  None \<Rightarrow> Inr \<lparr>release = None,
                     tr_forwardError = Some (ReleaseNotFound version (Tool_String (Tool_ref t)))\<rparr>
                | Some r \<Rightarrow> Inr \<lparr>release = Some r, tr_forwardError = None\<rparr>)))"

definition toolReleaseActions_Get ::
    "toolReleaseActions \<Rightarrow> ToolRelease option \<times> error option" where
  "toolReleaseActions_Get tr =
     (case tr_forwardError tr of
        Some err \<Rightarrow> (None, Some err)
      | None \<Rightarrow> (release tr, None))"

subsection \<open>Tool dependency resolution\<close>

text \<open>
  The chained expression
  \<^verbatim>\<open>pm.Package(p).Tool(t).Release(v).Get()\<close>. A panic of a stage ends it.
\<close>

definition Package_Tool_Release_Get ::
    "'h PackageManager \<Rightarrow> string \<Rightarrow> string \<Rightarrow> string \<Rightarrow>
     panic + (ToolRelease option \<times> error option)" where
  "Package_Tool_Release_Get pm p t v =
     (case packageActions_Tool (Package pm p) t of
        Inl pn \<Rightarrow> Inl pn
      | Inr ta \<Rightarrow>
          (case toolActions_Release ta v of
             Inl pn \<Rightarrow> Inl pn
           | Inr tr \<Rightarrow> Inr (toolReleaseActions_Get tr)))"

text \<open>\<^verbatim>\<open>FindToolDependency\<close> runs the chain and maps any error to nil.\<close>

definition FindToolDependency ::
    "'h PackageManager \<Rightarrow> ToolDependency \<Rightarrow> panic + ToolRelease option" where
  "FindToolDependency pm dep =
     (case Package_Tool_Release_Get pm (ToolPackager dep) (ToolName dep) (ToolVersion dep) of
        Inl pn \<Rightarrow> Inl pn
      | Inr (toolRelease, Some err) \<Rightarrow> Inr None
      | Inr (toolRelease, None) \<Rightarrow> Inr toolRelease)"

text \<open>
  The first loop of \<^verbatim>\<open>FindToolsRequiredForBoard\<close>: the map \<^verbatim>\<open>foundTools\<close> from
  "PACKAGER:TOOL" to a release receives the latest installed release of every tool of
  every package.
\<close>

definition add_tool ::
    "(string \<Rightarrow> string \<Rightarrow> bool) \<Rightarrow> string \<times> Tool \<Rightarrow>
     (string \<times> ToolRelease) list \<Rightarrow> (string \<times> ToolRelease) list" where
  "add_tool newer kt foundTools =
     (case GetLatestInstalled newer (snd kt) of
        None \<Rightarrow> foundTools
      | Some rel \<Rightarrow> AList.update (Tool_String (ToolRelease_Tool rel)) rel foundTools)"

definition add_package_tools ::
    "(string \<Rightarrow> string \<Rightarrow> bool) \<Rightarrow> string \<times> Package \<Rightarrow>
     (string \<times> ToolRelease) list \<Rightarrow> (string \<times> ToolRelease) list" where
  "add_package_tools newer kp foundTools = fold (add_tool newer) (Tools (snd kp)) foundTools"

definition default_tools ::
    "(string \<Rightarrow> string \<Rightarrow> bool) \<Rightarrow> 'h PackageManager \<Rightarrow> (string \<times> ToolRelease) list" where
  "default_tools newer pm = fold (add_package_tools newer) (packages pm) []"

text \<open>
  The second loop: each dependency of the platform is resolved and stored under the key
  of the tool it resolves to; the first that does not resolve ends the call with an
  error.
\<close>

fun replace_tools ::
    "'h PackageManager \<Rightarrow> ToolDependency list \<Rightarrow> (string \<times> ToolRelease) list \<Rightarrow>
     panic + (error + (string \<times> ToolRelease) list)" where
  "replace_tools pm [] foundTools = Inr (Inr foundTools)"
| "replace_tools pm (toolDep # rest) foundTools =
     (case FindToolDependency pm toolDep of
        Inl p \<Rightarrow> Inl p
      | Inr None \<Rightarrow> Inr (Inl (ToolReleaseNotFound toolDep))
      | Inr (Some t) \<Rightarrow>
          replace_tools pm rest (AList.update (Tool_String (ToolRelease_Tool t)) t foundTools))"

text \<open>
  The third loop collects the values of the map. Go visits them in an unspecified
  order; the model lists them in the order of the association list, and the theorems
  speak of the elements of the result only.
\<close>

definition FindToolsRequiredForBoard ::
    "(string \<Rightarrow> string \<Rightarrow> bool) \<Rightarrow> 'h PackageManager \<Rightarrow> Board \<Rightarrow>
     panic + (error + ToolRelease list)" where
  "FindToolsRequiredForBoard newer pm board =
     (let platform = PlatformRelease board in
      case replace_tools pm (Dependencies platform) (default_tools newer pm) of
        Inl p \<Rightarrow> Inl p
      | Inr (Inl err) \<Rightarrow> Inr (Inl err)
      | Inr (Inr foundTools) \<Rightarrow> Inr (Inr (map snd foundTools)))"

subsection \<open>The resolver as the specification words it\<close>

text \<open>
  These definitions follow the specification, not the source; the theorems below compare
  them with the functions of the source.

  The identity under which a release is filed: "packager:tool" of the tool it belongs
  to.
\<close>

definition release_key :: "ToolRelease \<Rightarrow> string" where
  "release_key r = Tool_String (ToolRelease_Tool r)"

text \<open>
  Resolving a declared dependency: the release of the exact version, of the tool of
  that name, of the package of that name, when the registry holds all three.
\<close>

definition spec_resolve :: "'h PackageManager \<Rightarrow> ToolDependency \<Rightarrow> ToolRelease option" where
  "spec_resolve pm dep =
     (case map_of (packages pm) (ToolPackager dep) of
        None \<Rightarrow> None
      | Some p \<Rightarrow>
          (case map_of (Tools p) (ToolName dep) of
             None \<Rightarrow> None
           | Some t \<Rightarrow> map_of (Tool_Releases t) (ToolVersion dep)))"

text \<open>
  Step 1 of the specification: for every tool of every package, its latest installed
  release. Step 2: the releases the declared dependencies resolve to. Each list is read
  as a mapping keyed by identity in which a later entry replaces an earlier one of the
  same key.
\<close>

definition spec_default_candidates ::
    "(string \<Rightarrow> string \<Rightarrow> bool) \<Rightarrow> 'h PackageManager \<Rightarrow> ToolRelease list" where
  "spec_default_candidates newer pm =
     concat (map (\<lambda>kp. List.map_filter (\<lambda>kt. GetLatestInstalled newer (snd kt)) (Tools (snd kp)))
                 (packages pm))"

definition spec_pinned :: "'h PackageManager \<Rightarrow> ToolDependency list \<Rightarrow> ToolRelease list" where
  "spec_pinned pm deps = List.map_filter (spec_resolve pm) deps"

definition keyed_map :: "ToolRelease list \<Rightarrow> string \<Rightarrow> ToolRelease option" where
  "keyed_map rs = map_of (rev (map (\<lambda>r. (release_key r, r)) rs))"

text \<open>Filing a release under its own key, as both loops of the source do.\<close>

definition file_release ::
    "ToolRelease \<Rightarrow> (string \<times> ToolRelease) list \<Rightarrow> (string \<times> ToolRelease) list" where
  "file_release r al = AList.update (release_key r) r al"

subsection \<open>An example registry\<close>

text \<open>
  One package, \<open>arduino\<close>, with the tools \<open>avr-gcc\<close> (versions 4.9.2 and 5.4.0
  installed, 7.3.0 known but not installed) and \<open>avrdude\<close> (6.3.0 installed), the
  platform \<open>avr\<close> whose installed release defines the board \<open>uno\<close> and pins
  \<open>avr-gcc\<close> to 4.9.2, and the platform \<open>sam\<close> with no installed release.
  Versions are compared byte by byte.
\<close>

fun bytewise_newer :: "string \<Rightarrow> string \<Rightarrow> bool" where
  "bytewise_newer [] w = False"
| "bytewise_newer (c # v) [] = True"
| "bytewise_newer (c # v) (d # w) =
     ((of_char d :: nat) < of_char c \<or> (c = d \<and> bytewise_newer v w))"

definition example_avr_gcc :: ToolRef where
  "example_avr_gcc = \<lparr>ToolRef_Name = ''avr-gcc'', ToolRef_Package = ''arduino''\<rparr>"

definition example_avrdude :: ToolRef where
  "example_avrdude = \<lparr>ToolRef_Name = ''avrdude'', ToolRef_Package = ''arduino''\<rparr>"

definition example_release :: "ToolRef \<Rightarrow> string \<Rightarrow> bool \<Rightarrow> ToolRelease" where
  "example_release t v i = \<lparr>Version = v, Installed = i, ToolRelease_Tool = t\<rparr>"

definition example_tools :: "(string \<times> Tool) list" where
  "example_tools =
     [(''avr-gcc'', \<lparr>Tool_Name = ''avr-gcc'', Tool_Package = ''arduino'',
         Tool_Releases =
           [(''4.9.2'', example_release example_avr_gcc ''4.9.2'' True),
            (''5.4.0'', example_release example_avr_gcc ''5.4.0'' True),
            (''7.3.0'', example_release example_avr_gcc ''7.3.0'' False)]\<rparr>),
      (''avrdude'', \<lparr>Tool_Name = ''avrdude'', Tool_Package = ''arduino'',
         Tool_Releases =
           [(''6.3.0'', example_release example_avrdude ''6.3.0'' True)]\<rparr>)]"

definition example_dependency :: "string \<Rightarrow> ToolDependency" where
  "example_dependency v = \<lparr>ToolName = ''avr-gcc'', ToolVersion = v, ToolPackager = ''arduino''\<rparr>"

definition example_board :: "string \<Rightarrow> Board" where
  "example_board v =
     \<lparr>BoardId = ''uno'', PlatformRelease = \<lparr>Dependencies = [example_dependency v]\<rparr>\<rparr>"

definition example_platforms :: "(string \<times> Platform) list" where
  "example_platforms =
     [(''avr'', \<lparr>Architecture = ''avr'',
         Platform_Releases =
           [(''1.6.21'', \<lparr>PlatformRelease_Installed = True,
                           Boards = [example_board ''4.9.2'']\<rparr>)]\<rparr>),
      (''sam'', \<lparr>Architecture = ''sam'',
         Platform_Releases =
           [(''1.6.11'', \<lparr>PlatformRelease_Installed = False, Boards = []\<rparr>)]\<rparr>)]"

definition example_package :: Package where
  "example_package =
     \<lparr>Package_Name = ''arduino'', Platforms = example_platforms, Tools = example_tools\<rparr>"

definition example_manager :: "nat PackageManager" where
  "example_manager = \<lparr>packages = [(''arduino'', example_package)], eventHandler = None\<rparr>"

section \<open>Properties\<close>

subsection \<open>Lifecycle\<close>

text \<open>
  Against C9: \<^verbatim>\<open>Clear\<close> assigns the field \<^verbatim>\<open>packages\<close> only. A manager with a
  registered event handler keeps it across \<^verbatim>\<open>Clear\<close>, so the cleared manager is not
  the one \<^verbatim>\<open>NewPackageManager\<close> returns.
\<close>

theorem Clear_keeps_eventHandler_counterexample:
  "Clear \<lparr>packages = [], eventHandler = Some (0::nat)\<rparr> \<noteq> NewPackageManager"
  by (simp add: Clear_def NewPackageManager_def NewPackages_def)

text \<open>
  C9, amended: \<^verbatim>\<open>Clear\<close> always returns (it has no error result and no panic), the
  package collection of the cleared manager is that of a newly created manager, and
  the event handler is the one the manager had before.
\<close>

theorem Clear_resets_packages:
  "Clear pm = (NewPackageManager :: 'h PackageManager)\<lparr>eventHandler := eventHandler pm\<rparr>"
  by (simp add: Clear_def NewPackageManager_def)

theorem Clear_resets_packages_witness:
  "Clear \<lparr>packages = [(''p'', \<lparr>Package_Name = ''p'', Platforms = [], Tools = []\<rparr>)],
          eventHandler = Some (3::nat)\<rparr>
   = \<lparr>packages = [], eventHandler = Some 3\<rparr>"
  using Clear_resets_packages
    [of "\<lparr>packages = [(''p'', \<lparr>Package_Name = ''p'', Platforms = [], Tools = []\<rparr>)],
          eventHandler = Some (3::nat)\<rparr>"]
  by (simp add: NewPackageManager_def NewPackages_def)

subsection \<open>Event handler registration\<close>

text \<open>
  Against C8: registering a handler on a manager that already has one panics, so the
  caller receives no error value.
\<close>

theorem RegisterEventHandler_twice_counterexample:
  "RegisterEventHandler \<lparr>packages = [], eventHandler = Some (1::nat)\<rparr> (Some 2) =
     Inl (PanicMessage (''Don'' @ [CHR 0x27] @
         ''t try to register another event handler to the PackageManager yet!''))"
  by (simp add: RegisterEventHandler_def)

text \<open>
  C8, amended: registering on a manager that already has a handler panics, whatever
  the handler; registering a handler \<open>s\<close> on a manager without one succeeds and stores
  it, and \<^verbatim>\<open>GetEventHandlers\<close> then returns exactly one handler, \<open>s\<close>. (What
  \<^verbatim>\<open>GetEventHandlers\<close> returns before any registration is not part of the
  statement.)
\<close>

theorem RegisterEventHandler_single_slot:
  "(eventHandler pm \<noteq> None \<longrightarrow> (\<exists>p. RegisterEventHandler pm h = Inl p))
   \<and> (eventHandler pm = None \<longrightarrow>
        RegisterEventHandler pm (Some s) = Inr (pm\<lparr>eventHandler := Some s\<rparr>)
        \<and> GetEventHandlers (pm\<lparr>eventHandler := Some s\<rparr>) = [Some s])"
  by (simp add: RegisterEventHandler_def GetEventHandlers_def)

theorem RegisterEventHandler_single_slot_witness:
  "(\<exists>p. RegisterEventHandler \<lparr>packages = [], eventHandler = Some (1::nat)\<rparr> (Some 2) = Inl p)
   \<and> RegisterEventHandler (NewPackageManager :: nat PackageManager) (Some 7)
        = Inr \<lparr>packages = [], eventHandler = Some 7\<rparr>
   \<and> GetEventHandlers \<lparr>packages = [], eventHandler = Some (7::nat)\<rparr> = [Some 7]"
  using RegisterEventHandler_single_slot
          [of "\<lparr>packages = [], eventHandler = Some (1::nat)\<rparr>" "Some 2" 7]
        RegisterEventHandler_single_slot [of "NewPackageManager :: nat PackageManager" None 7]
  by (simp add: NewPackageManager_def NewPackages_def)

subsection \<open>The resolution chain\<close>

text \<open>
  C6: a handle that carries an error \<open>e\<close> passes it on unchanged. \<^verbatim>\<open>Tool\<close> on such a
  package handle and \<^verbatim>\<open>Release\<close> on such a tool handle return (without panic) a
  handle that carries \<open>e\<close>; \<^verbatim>\<open>Get\<close> on such a tool or release handle returns
  \<open>(nil, e)\<close>; \<^verbatim>\<open>IsInstalled\<close> returns \<open>(false, e)\<close>. On a tool handle without error
  whose tool has no installed release, \<^verbatim>\<open>IsInstalled\<close> returns \<open>(false, nil)\<close>.
\<close>

theorem forwardError_propagates:
  "(pa_forwardError pa = Some e \<longrightarrow>
      (\<exists>ta. packageActions_Tool pa name = Inr ta \<and> ta_forwardError ta = Some e))
   \<and> (ta_forwardError ta = Some e \<longrightarrow>
      (\<exists>tr. toolActions_Release ta version = Inr tr \<and> tr_forwardError tr = Some e)
      \<and> toolActions_Get ta = (None, Some e)
      \<and> toolActions_IsInstalled ta = Inr (False, Some e))
   \<and> (tr_forwardError tr = Some e \<longrightarrow> toolReleaseActions_Get tr = (None, Some e))
   \<and> (ta_forwardError ta = None \<and> tool ta = Some t
        \<and> (\<forall>kv \<in> set (Tool_Releases t). \<not> Installed (snd kv)) \<longrightarrow>
      toolActions_IsInstalled ta = Inr (False, None))"
  by (simp add: packageActions_Tool_def toolActions_Release_def toolActions_Get_def
      toolActions_IsInstalled_def toolReleaseActions_Get_def list_ex_iff)

theorem forwardError_propagates_witness:
  "(\<exists>ta. packageActions_Tool \<lparr>aPackage = None, pa_forwardError = Some (PackageNotFound ''x'')\<rparr>
            ''avr-gcc'' = Inr ta
          \<and> ta_forwardError ta = Some (PackageNotFound ''x''))
   \<and> (\<exists>tr. toolActions_Release \<lparr>tool = None, ta_forwardError = Some (PackageNotFound ''x'')\<rparr>
            ''4.9.2'' = Inr tr
          \<and> tr_forwardError tr = Some (PackageNotFound ''x''))
   \<and> toolActions_Get \<lparr>tool = None, ta_forwardError = Some (PackageNotFound ''x'')\<rparr>
        = (None, Some (PackageNotFound ''x''))
   \<and> toolActions_IsInstalled \<lparr>tool = None, ta_forwardError = Some (PackageNotFound ''x'')\<rparr>
        = Inr (False, Some (PackageNotFound ''x''))
   \<and> toolReleaseActions_Get \<lparr>release = None, tr_forwardError = Some (PackageNotFound ''x'')\<rparr>
        = (None, Some (PackageNotFound ''x''))
   \<and> toolActions_IsInstalled
        \<lparr>tool = Some \<lparr>Tool_Name = ''avr-gcc'', Tool_Package = ''arduino'',
           Tool_Releases = [(''7.3.0'', example_release example_avr_gcc ''7.3.0'' False)]\<rparr>,
         ta_forwardError = None\<rparr>
        = Inr (False, None)"
  using forwardError_propagates
     [of "\<lparr>aPackage = None, pa_forwardError = Some (PackageNotFound ''x'')\<rparr>"
         "PackageNotFound ''x''" "''avr-gcc''"
         "\<lparr>tool = None, ta_forwardError = Some (PackageNotFound ''x'')\<rparr>" "''4.9.2''"
         "\<lparr>release = None, tr_forwardError = Some (PackageNotFound ''x'')\<rparr>"]
    forwardError_propagates
     [of _ _ _ "\<lparr>tool = Some \<lparr>Tool_Name = ''avr-gcc'', Tool_Package = ''arduino'',
           Tool_Releases = [(''7.3.0'', example_release example_avr_gcc ''7.3.0'' False)]\<rparr>,
         ta_forwardError = None\<rparr>" _ _
         "\<lparr>Tool_Name = ''avr-gcc'', Tool_Package = ''arduino'',
           Tool_Releases = [(''7.3.0'', example_release example_avr_gcc ''7.3.0'' False)]\<rparr>"]
  by (simp add: example_release_def)

lemma Package_found:
  "map_of (packages pm) p = Some pkg \<Longrightarrow>
   Package pm p = \<lparr>aPackage = Some pkg, pa_forwardError = None\<rparr>"
  by (simp add: Package_def)

lemma Package_missing:
  "map_of (packages pm) p = None \<Longrightarrow>
   Package pm p = \<lparr>aPackage = None, pa_forwardError = Some (PackageNotFound p)\<rparr>"
  by (simp add: Package_def)

lemma PackageNotFound_names_package:
  "sublist name (error_message dep_string (PackageNotFound name))"
proof -
  have "error_message dep_string (PackageNotFound name)
        = (''package '' @ [CHR 0x27]) @ name @ ([CHR 0x27] @ '' not found'')"
    by simp
  then show ?thesis
    by (simp only: sublist_appendI)
qed

text \<open>
  Against C7: the handle that \<^verbatim>\<open>Package\<close> returns has no \<^verbatim>\<open>Get\<close>; its only
  method is \<^verbatim>\<open>Tool\<close>, and \<^verbatim>\<open>Get\<close> is a method of the tool and release handles.
  For a name the registry does not hold, \<^verbatim>\<open>Package\<close> itself does not fail: it
  returns a handle in which the error is latched.
\<close>

theorem package_handle_without_Get_counterexample:
  "''Get'' \<notin> set packageActions_methods
   \<and> ''Get'' \<in> set toolActions_methods
   \<and> ''Get'' \<in> set toolReleaseActions_methods
   \<and> Package example_manager ''missing''
        = \<lparr>aPackage = None, pa_forwardError = Some (PackageNotFound ''missing'')\<rparr>"
  by (simp add: packageActions_methods_def toolActions_methods_def
      toolReleaseActions_methods_def Package_def example_manager_def)

text \<open>
  C7, amended: when the registry holds package \<open>p\<close>, that package holds tool \<open>t\<close> and
  that tool holds release \<open>r\<close> under version \<open>v\<close>, the chain
  \<^verbatim>\<open>Package(p).Tool(t).Release(v).Get()\<close> returns \<open>(r, nil)\<close>. When the registry
  holds no package \<open>missing\<close>, the handle \<^verbatim>\<open>Package(missing)\<close> latches the error
  "package 'missing' not found", whose message contains the name, and the \<^verbatim>\<open>Get\<close>
  calls the chain offers, \<^verbatim>\<open>Package(missing).Tool(t).Get()\<close> and
  \<^verbatim>\<open>Package(missing).Tool(t).Release(v).Get()\<close>, return nil with that error.
\<close>

theorem chain_returns_release:
  "(map_of (packages pm) p = Some pkg \<and> map_of (Tools pkg) t = Some tool0
      \<and> map_of (Tool_Releases tool0) v = Some r \<longrightarrow>
      Package_Tool_Release_Get pm p t v = Inr (Some r, None))
   \<and> (map_of (packages pm) missing = None \<longrightarrow>
      pa_forwardError (Package pm missing) = Some (PackageNotFound missing)
      \<and> (\<exists>ta. packageActions_Tool (Package pm missing) t = Inr ta
             \<and> toolActions_Get ta = (None, Some (PackageNotFound missing)))
      \<and> Package_Tool_Release_Get pm missing t v = Inr (None, Some (PackageNotFound missing))
      \<and> sublist missing (error_message dep_string (PackageNotFound missing)))"
  by (simp add: Package_Tool_Release_Get_def Package_found Package_missing packageActions_Tool_def
      toolActions_Release_def toolReleaseActions_Get_def toolActions_Get_def GetRelease_def
      PackageNotFound_names_package del: error_message.simps)

lemmas example_defs = example_manager_def example_package_def example_platforms_def
  example_tools_def example_board_def example_dependency_def example_release_def
  example_avr_gcc_def example_avrdude_def

theorem chain_returns_release_witness:
  "Package_Tool_Release_Get example_manager ''arduino'' ''avr-gcc'' ''4.9.2''
     = Inr (Some (example_release example_avr_gcc ''4.9.2'' True), None)
   \<and> Package_Tool_Release_Get example_manager ''missing'' ''avr-gcc'' ''4.9.2''
     = Inr (None, Some (PackageNotFound ''missing''))
   \<and> error_message (\<lambda>d. []) (PackageNotFound ''missing'') = ''package 'missing' not found''
   \<and> sublist ''missing'' (error_message (\<lambda>d. []) (PackageNotFound ''missing''))"
  using chain_returns_release
    [of example_manager "''arduino''" example_package "''avr-gcc''"
        "snd (example_tools ! 0)" "''4.9.2''" "example_release example_avr_gcc ''4.9.2'' True"
        "''missing''" "\<lambda>d. []"]
  by (simp add: example_defs)

subsection \<open>Board lookup by FQBN\<close>

lemma Split_not_Nil: "Split s sep \<noteq> []"
  by (induction s) (auto split: list.splits)

lemma length_Split: "length (Split s sep) = Suc (count_list s sep)"
proof (induction s)
  case Nil
  show ?case by simp
next
  case (Cons c cs)
  then show ?case
    using Split_not_Nil [of cs sep] by (cases "Split cs sep") auto
qed

lemma search_platforms_not_format:
  "search_platforms pls arch b \<noteq> Some (Inl IncorrectFqbnFormat)"
  by (induction pls arch b rule: search_platforms.induct) (auto split: option.splits)

lemma search_packages_not_format:
  "search_packages pkgs n arch b \<noteq> Some (Inl IncorrectFqbnFormat)"
  by (induction pkgs n arch b rule: search_packages.induct)
     (auto split: option.splits simp: search_platforms_not_format)

text \<open>
  Against C4: \<open>a::c\<close> does not consist of three or four non-empty segments (its second
  segment is empty), yet \<^verbatim>\<open>FindBoardWithFQBN\<close> does not reject its format: it goes
  on to the lookup, which here ends with "board not found".
\<close>

theorem FindBoardWithFQBN_empty_segment_counterexample:
  "Split ''a::c'' (CHR '':'') = [''a'', [], ''c'']
   \<and> FindBoardWithFQBN (NewPackageManager :: nat PackageManager) ''a::c'' = Inl BoardNotFound"
  by (simp add: FindBoardWithFQBN_def NewPackageManager_def NewPackages_def)

text \<open>
  C4, amended: \<^verbatim>\<open>FindBoardWithFQBN\<close> fails with "incorrect format for fqbn"
  exactly when the number of colon-separated segments of the string, empty segments
  counted, is neither 3 nor 4. The number of segments is one more than the number of
  colons. So strings of 1, 2 or 5 segments fail with that error and strings of 3 or 4
  segments go on to the lookup, whatever the segments hold.
\<close>

theorem FindBoardWithFQBN_format_error_iff:
  "(FindBoardWithFQBN pm fqbn = Inl IncorrectFqbnFormat
      \<longleftrightarrow> length (Split fqbn (CHR '':'')) \<notin> {3, 4})
   \<and> length (Split fqbn (CHR '':'')) = Suc (count_list fqbn (CHR '':''))
   \<and> error_message dep_string IncorrectFqbnFormat = ''incorrect format for fqbn''"
proof -
  let ?parts = "Split fqbn (CHR '':'')"
  have "FindBoardWithFQBN pm fqbn = Inl IncorrectFqbnFormat" if "length ?parts \<notin> {3, 4}"
    using that by (auto simp: FindBoardWithFQBN_def Let_def)
  moreover have "FindBoardWithFQBN pm fqbn \<noteq> Inl IncorrectFqbnFormat"
    if "length ?parts \<in> {3, 4}"
  proof -
    from that have "\<not> (length ?parts < 3 \<or> length ?parts > 4)" by auto
    then show ?thesis
      using search_packages_not_format [of "packages pm" "?parts ! 0" "?parts ! 1" "?parts ! 2"]
      by (auto simp: FindBoardWithFQBN_def Let_def split: option.splits)
  qed
  ultimately show ?thesis
    using length_Split [of fqbn "CHR '':''"] by auto
qed

theorem FindBoardWithFQBN_format_error_iff_witness:
  "FindBoardWithFQBN example_manager ''uno'' = Inl IncorrectFqbnFormat
   \<and> FindBoardWithFQBN example_manager ''arduino:avr'' = Inl IncorrectFqbnFormat
   \<and> FindBoardWithFQBN example_manager ''arduino:avr:uno:cpu:x'' = Inl IncorrectFqbnFormat
   \<and> FindBoardWithFQBN example_manager ''arduino:avr:uno'' \<noteq> Inl IncorrectFqbnFormat
   \<and> FindBoardWithFQBN example_manager ''arduino:avr:uno:cpu'' \<noteq> Inl IncorrectFqbnFormat
   \<and> length (Split ''arduino:avr:uno'' (CHR '':'')) = 3"
  using FindBoardWithFQBN_format_error_iff [of example_manager "''uno''"]
    FindBoardWithFQBN_format_error_iff [of example_manager "''arduino:avr''"]
    FindBoardWithFQBN_format_error_iff [of example_manager "''arduino:avr:uno:cpu:x''"]
    FindBoardWithFQBN_format_error_iff [of example_manager "''arduino:avr:uno''"]
    FindBoardWithFQBN_format_error_iff [of example_manager "''arduino:avr:uno:cpu''"]
  by simp

lemma search_packages_no_name:
  "\<forall>kp \<in> set pkgs. Package_Name (snd kp) \<noteq> n \<Longrightarrow> search_packages pkgs n arch b = None"
  by (induction pkgs n arch b rule: search_packages.induct) auto

text \<open>
  Against C3: on a registry without packages the well-formed FQBN \<open>pkg:arch:board\<close>
  fails with "board not found", the error of a missing board. The source has no
  "package not found" error on this path.
\<close>

theorem FindBoardWithFQBN_missing_package_counterexample:
  "FindBoardWithFQBN (NewPackageManager :: nat PackageManager) ''pkg:arch:board''
     = Inl BoardNotFound"
  by (simp add: FindBoardWithFQBN_def NewPackageManager_def NewPackages_def)

text \<open>
  C3, amended: for every FQBN of 3 or 4 segments whose first segment is the name of no
  package of the registry, \<^verbatim>\<open>FindBoardWithFQBN\<close> fails with "board not found", the
  same error as for a missing board.
\<close>

theorem FindBoardWithFQBN_missing_package:
  assumes "length (Split fqbn (CHR '':'')) \<in> {3, 4}"
    and "\<forall>kp \<in> set (packages pm). Package_Name (snd kp) \<noteq> Split fqbn (CHR '':'') ! 0"
  shows "FindBoardWithFQBN pm fqbn = Inl BoardNotFound"
proof -
  from assms(1)
  have "\<not> (length (Split fqbn (CHR '':'')) < 3 \<or> length (Split fqbn (CHR '':'')) > 4)"
    by auto
  then show ?thesis
    using search_packages_no_name [OF assms(2)]
    by (simp add: FindBoardWithFQBN_def Let_def)
qed

theorem FindBoardWithFQBN_missing_package_witness:
  "Split ''esp:avr:uno'' (CHR '':'') = [''esp'', ''avr'', ''uno'']
   \<and> map (\<lambda>kp. Package_Name (snd kp)) (packages example_manager) = [''arduino'']
   \<and> FindBoardWithFQBN example_manager ''esp:avr:uno'' = Inl BoardNotFound"
proof -
  have len: "length (Split ''esp:avr:uno'' (CHR '':'')) \<in> {3, 4}"
    by simp
  have names: "\<forall>kp \<in> set (packages example_manager).
         Package_Name (snd kp) \<noteq> Split ''esp:avr:uno'' (CHR '':'') ! 0"
    by (simp add: example_manager_def example_package_def)
  have "Split ''esp:avr:uno'' (CHR '':'') = [''esp'', ''avr'', ''uno'']"
    and "map (\<lambda>kp. Package_Name (snd kp)) (packages example_manager) = [''arduino'']"
    by (simp_all add: example_manager_def example_package_def)
  then show ?thesis
    using FindBoardWithFQBN_missing_package [OF len names] by blast
qed

lemma find_board_None: "find_board bs b = None \<longleftrightarrow> (\<forall>x \<in> set bs. BoardId x \<noteq> b)"
  by (induction bs b rule: find_board.induct) auto

lemma search_platforms_no_arch:
  "\<forall>kp \<in> set pls. Architecture (snd kp) \<noteq> arch \<Longrightarrow> search_platforms pls arch b = None"
  by (induction pls arch b rule: search_platforms.induct) auto

lemma search_platforms_unique:
  assumes "distinct (map (\<lambda>kp. Architecture (snd kp)) pls)"
    and "(a, pl) \<in> set pls" and "Architecture pl = arch"
  shows "search_platforms pls arch b =
     (case GetInstalled pl of
        None \<Rightarrow> Some (Inl PlatformNotInstalled)
      | Some rel \<Rightarrow> (case find_board (Boards rel) b of
                       Some board \<Rightarrow> Some (Inr board) | None \<Rightarrow> None))"
  using assms
proof (induction pls arch b rule: search_platforms.induct)
  case (1 arch b)
  then show ?case by simp
next
  case (2 k targetPlatform rest platformArch boardID)
  show ?case
  proof (cases "Architecture targetPlatform = platformArch")
    case True
    with 2(3,4,5) have eq: "pl = targetPlatform"
      and rest: "\<forall>kp \<in> set rest. Architecture (snd kp) \<noteq> platformArch"
      by (auto simp: image_iff)
    show ?thesis
      using True search_platforms_no_arch [OF rest, of boardID]
      by (simp add: eq split: option.splits)
  next
    case False
    with 2 show ?thesis by auto
  qed
qed

lemma search_packages_unique:
  assumes "distinct (map (\<lambda>kp. Package_Name (snd kp)) pkgs)"
    and "(k, p) \<in> set pkgs" and "Package_Name p = n"
  shows "search_packages pkgs n arch b = search_platforms (Platforms p) arch b"
  using assms
proof (induction pkgs n arch b rule: search_packages.induct)
  case (1 n arch b)
  then show ?case by simp
next
  case (2 k' targetPackage rest packageName platformArch boardID)
  show ?case
  proof (cases "Package_Name targetPackage = packageName")
    case True
    with 2(3,4,5) have eq: "p = targetPackage"
      and rest: "\<forall>kp \<in> set rest. Package_Name (snd kp) \<noteq> packageName"
      by (auto simp: image_iff)
    show ?thesis
      using True search_packages_no_name [OF rest, of platformArch boardID]
      by (simp add: eq split: option.splits)
  next
    case False
    with 2 show ?thesis by auto
  qed
qed

lemma GetInstalled_None:
  "GetInstalled pl = None \<longleftrightarrow>
   (\<forall>kr \<in> set (Platform_Releases pl). \<not> PlatformRelease_Installed (snd kr))"
  by (auto simp: GetInstalled_def find_None_iff)

text \<open>
  C5: let the FQBN have the segments \<open>pkg\<close>, \<open>arch\<close>, \<open>boardX\<close> (and at most one
  more), in a registry whose package names are unique and whose package \<open>pkg\<close> has
  the platform \<open>arch\<close>, architectures being unique within a package. If no release of
  that platform is installed, \<^verbatim>\<open>FindBoardWithFQBN\<close> fails with "platform not
  installed". If the platform is installed and its installed release has no board
  \<open>boardX\<close>, it fails with "board not found". The two errors differ, and so do their
  messages.
\<close>

theorem FindBoardWithFQBN_platform_not_installed:
  assumes "Split fqbn (CHR '':'') = pkg # arch # boardX # opts" and "length opts \<le> 1"
    and "distinct (map (\<lambda>kp. Package_Name (snd kp)) (packages pm))"
    and "(k, p) \<in> set (packages pm)" and "Package_Name p = pkg"
    and "distinct (map (\<lambda>kp. Architecture (snd kp)) (Platforms p))"
    and "(a, pl) \<in> set (Platforms p)" and "Architecture pl = arch"
  shows "((\<forall>kr \<in> set (Platform_Releases pl). \<not> PlatformRelease_Installed (snd kr)) \<longrightarrow>
            FindBoardWithFQBN pm fqbn = Inl PlatformNotInstalled)
       \<and> (GetInstalled pl = Some rel \<and> (\<forall>board \<in> set (Boards rel). BoardId board \<noteq> boardX) \<longrightarrow>
            FindBoardWithFQBN pm fqbn = Inl BoardNotFound)
       \<and> PlatformNotInstalled \<noteq> BoardNotFound
       \<and> error_message dep_string PlatformNotInstalled \<noteq> error_message dep_string BoardNotFound"
proof -
  have len: "\<not> (length (Split fqbn (CHR '':'')) < 3 \<or> length (Split fqbn (CHR '':'')) > 4)"
    using assms(1,2) by simp
  have "FindBoardWithFQBN pm fqbn =
      (case search_platforms (Platforms p) arch boardX of
         Some r \<Rightarrow> r | None \<Rightarrow> Inl BoardNotFound)"
    using len search_packages_unique [OF assms(3,4,5), of arch boardX]
    by (simp add: FindBoardWithFQBN_def Let_def assms(1))
  then show ?thesis
    using search_platforms_unique [OF assms(6,7,8), of boardX] GetInstalled_None [of pl]
      find_board_None [of "Boards rel" boardX]
    by auto
qed

theorem FindBoardWithFQBN_platform_not_installed_witness:
  "FindBoardWithFQBN example_manager ''arduino:sam:due'' = Inl PlatformNotInstalled
   \<and> FindBoardWithFQBN example_manager ''arduino:avr:mega'' = Inl BoardNotFound"
proof -
  have pm: "distinct (map (\<lambda>kp. Package_Name (snd kp)) (packages example_manager))"
      "(''arduino'', example_package) \<in> set (packages example_manager)"
      "Package_Name example_package = ''arduino''"
      "distinct (map (\<lambda>kp. Architecture (snd kp)) (Platforms example_package))"
    by (simp_all add: example_defs)
  have sam: "Split ''arduino:sam:due'' (CHR '':'') = ''arduino'' # ''sam'' # ''due'' # []"
      "length ([] :: string list) \<le> 1"
      "(''sam'', snd (example_platforms ! 1)) \<in> set (Platforms example_package)"
      "Architecture (snd (example_platforms ! 1)) = ''sam''"
      "\<forall>kr \<in> set (Platform_Releases (snd (example_platforms ! 1))).
         \<not> PlatformRelease_Installed (snd kr)"
    by (simp_all add: example_defs)
  have avr: "Split ''arduino:avr:mega'' (CHR '':'') = ''arduino'' # ''avr'' # ''mega'' # []"
      "(''avr'', snd (example_platforms ! 0)) \<in> set (Platforms example_package)"
      "Architecture (snd (example_platforms ! 0)) = ''avr''"
      "GetInstalled (snd (example_platforms ! 0))
         = Some \<lparr>PlatformRelease_Installed = True, Boards = [example_board ''4.9.2'']\<rparr>"
      "\<forall>board \<in> set (Boards \<lparr>PlatformRelease_Installed = True,
                               Boards = [example_board ''4.9.2'']\<rparr>). BoardId board \<noteq> ''mega''"
    by (simp_all add: example_defs GetInstalled_def)
  show ?thesis
    using FindBoardWithFQBN_platform_not_installed
        [OF sam(1,2) pm(1,2,3,4) sam(3,4)] sam(5)
      FindBoardWithFQBN_platform_not_installed
        [OF avr(1) sam(2) pm(1,2,3,4) avr(2,3)] avr(4,5)
    by blast
qed

subsection \<open>Tool dependency resolution\<close>

text \<open>
  The chain that \<^verbatim>\<open>FindToolDependency\<close> runs starts from a handle that
  \<^verbatim>\<open>Package\<close> built, so no stage dereferences nil: the call never panics, and it
  returns what the specification's resolution returns.
\<close>

lemma FindToolDependency_spec_resolve: "FindToolDependency pm dep = Inr (spec_resolve pm dep)"
  by (simp add: FindToolDependency_def Package_Tool_Release_Get_def Package_def Let_def
      packageActions_Tool_def toolActions_Release_def toolReleaseActions_Get_def
      GetRelease_def spec_resolve_def split: option.splits)

lemma replace_tools_unresolved:
  "find (\<lambda>d. spec_resolve pm d = None) deps = Some d \<Longrightarrow>
   replace_tools pm deps found = Inr (Inl (ToolReleaseNotFound d))"
  by (induction deps arbitrary: found)
     (auto simp: FindToolDependency_spec_resolve split: if_splits)

lemma find_some_member: "d0 \<in> set deps \<Longrightarrow> P d0 \<Longrightarrow> \<exists>d. find P deps = Some d"
  by (cases "find P deps") (auto simp: find_None_iff)

lemmas FindToolsRequiredForBoard_eval =
  FindToolsRequiredForBoard_def default_tools_def add_package_tools_def add_tool_def
  GetLatestInstalled_def latest_step_def FindToolDependency_def Package_Tool_Release_Get_def
  Package_def packageActions_Tool_def toolActions_Release_def toolReleaseActions_Get_def
  GetRelease_def Tool_String_def

text \<open>
  Against C2: the platform of the board pins \<open>avr-gcc\<close> to 7.3.0, a version the
  registry knows but that is not installed. \<^verbatim>\<open>FindToolsRequiredForBoard\<close> succeeds
  and its result holds that release.
\<close>

theorem FindToolsRequiredForBoard_not_installed_counterexample:
  "Dependencies (PlatformRelease (example_board ''7.3.0'')) = [example_dependency ''7.3.0'']
   \<and> spec_resolve example_manager (example_dependency ''7.3.0'')
        = Some (example_release example_avr_gcc ''7.3.0'' False)
   \<and> \<not> Installed (example_release example_avr_gcc ''7.3.0'' False)
   \<and> FindToolsRequiredForBoard bytewise_newer example_manager (example_board ''7.3.0'')
        = Inr (Inr [example_release example_avr_gcc ''7.3.0'' False,
                    example_release example_avrdude ''6.3.0'' True])"
  by (simp add: FindToolsRequiredForBoard_eval spec_resolve_def example_defs)

text \<open>
  C2, amended: if a dependency declared by the board's platform does not resolve, that
  is, the registry holds no package of its packager name, or that package no tool of
  its tool name, or that tool no release of its version (installed or not), then
  \<^verbatim>\<open>FindToolsRequiredForBoard\<close> returns no list but the error "tool release not
  found" naming the first declared dependency that does not resolve.
\<close>

theorem FindToolsRequiredForBoard_unresolved_dependency:
  assumes "d0 \<in> set (Dependencies (PlatformRelease board))" and "spec_resolve pm d0 = None"
  shows "\<exists>d. find (\<lambda>d. spec_resolve pm d = None) (Dependencies (PlatformRelease board)) = Some d
           \<and> FindToolsRequiredForBoard newer pm board = Inr (Inl (ToolReleaseNotFound d))"
proof -
  obtain d
    where "find (\<lambda>d. spec_resolve pm d = None) (Dependencies (PlatformRelease board)) = Some d"
    using find_some_member [of d0 _ "\<lambda>d. spec_resolve pm d = None"] assms by blast
  then show ?thesis
    by (simp add: FindToolsRequiredForBoard_def Let_def replace_tools_unresolved)
qed

theorem FindToolsRequiredForBoard_unresolved_dependency_witness:
  "example_dependency ''9.9.9'' \<in> set (Dependencies (PlatformRelease (example_board ''9.9.9'')))
   \<and> spec_resolve example_manager (example_dependency ''9.9.9'') = None
   \<and> FindToolsRequiredForBoard bytewise_newer example_manager (example_board ''9.9.9'')
        = Inr (Inl (ToolReleaseNotFound (example_dependency ''9.9.9'')))"
proof -
  have dep: "example_dependency ''9.9.9''
               \<in> set (Dependencies (PlatformRelease (example_board ''9.9.9'')))"
    by (simp add: example_board_def)
  have unresolved: "spec_resolve example_manager (example_dependency ''9.9.9'') = None"
    by (simp add: spec_resolve_def example_defs)
  show ?thesis
    using dep unresolved
      FindToolsRequiredForBoard_unresolved_dependency
        [OF dep unresolved, of bytewise_newer]
    by (auto simp: example_board_def split: if_splits)
qed

lemma add_tool_file:
  "add_tool newer kt al =
     (case GetLatestInstalled newer (snd kt) of None \<Rightarrow> al | Some rel \<Rightarrow> file_release rel al)"
  by (simp add: add_tool_def file_release_def release_key_def split: option.splits)

lemma fold_add_tool:
  "fold (add_tool newer) tools al =
   fold file_release (List.map_filter (\<lambda>kt. GetLatestInstalled newer (snd kt)) tools) al"
  by (induction tools arbitrary: al) (auto simp: add_tool_file split: option.splits)

lemma fold_add_package_tools:
  "fold (add_package_tools newer) pkgs al =
   fold file_release
     (concat (map (\<lambda>kp. List.map_filter (\<lambda>kt. GetLatestInstalled newer (snd kt))
                          (Tools (snd kp))) pkgs)) al"
  by (induction pkgs arbitrary: al) (simp_all add: add_package_tools_def fold_add_tool)

lemma default_tools_spec:
  "default_tools newer pm = fold file_release (spec_default_candidates newer pm) []"
  by (simp add: default_tools_def spec_default_candidates_def fold_add_package_tools)

lemma replace_tools_success:
  "replace_tools pm deps al = Inr (Inr al') \<Longrightarrow>
   al' = fold file_release (spec_pinned pm deps) al"
  by (induction deps arbitrary: al)
     (auto simp: FindToolDependency_spec_resolve spec_pinned_def file_release_def
        release_key_def split: option.splits)

lemma replace_tools_resolved:
  "\<forall>d \<in> set deps. spec_resolve pm d \<noteq> None \<Longrightarrow>
   replace_tools pm deps al = Inr (Inr (fold file_release (spec_pinned pm deps) al))"
  by (induction deps arbitrary: al)
     (auto simp: FindToolDependency_spec_resolve spec_pinned_def file_release_def
        release_key_def split: option.splits)

lemma keyed_map_Cons: "keyed_map (r # rs) = [release_key r \<mapsto> r] ++ keyed_map rs"
  by (simp add: keyed_map_def)

lemma keyed_map_append: "keyed_map (rs @ rs') = keyed_map rs ++ keyed_map rs'"
  by (simp add: keyed_map_def)

lemma keyed_map_own_key: "keyed_map rs k = Some r \<Longrightarrow> k = release_key r"
  by (auto simp: keyed_map_def dest: map_of_SomeD)

lemma map_of_fold_file_release:
  "map_of (fold file_release rs al) = map_of al ++ keyed_map rs"
proof (induction rs arbitrary: al)
  case Nil
  show ?case by (simp add: keyed_map_def)
next
  case (Cons r rs)
  have "map_of (fold file_release (r # rs) al) = map_of (file_release r al) ++ keyed_map rs"
    using Cons.IH [of "file_release r al"] by simp
  also have "map_of (file_release r al) = map_of al ++ [release_key r \<mapsto> r]"
    by (simp add: file_release_def update_conv')
  also have "(map_of al ++ [release_key r \<mapsto> r]) ++ keyed_map rs
               = map_of al ++ keyed_map (r # rs)"
    by (simp only: keyed_map_Cons map_add_assoc)
  finally show ?case .
qed

lemma distinct_fold_file_release:
  "distinct (map fst al) \<Longrightarrow> distinct (map fst (fold file_release rs al))"
  by (induction rs arbitrary: al) (simp_all add: file_release_def distinct_update)

lemma set_update_subset: "set (AList.update k v al) \<subseteq> insert (k, v) (set al)"
  by (induction al) auto

lemma own_key_fold_file_release:
  "\<forall>kr \<in> set al. fst kr = release_key (snd kr) \<Longrightarrow>
   \<forall>kr \<in> set (fold file_release rs al). fst kr = release_key (snd kr)"
proof (induction rs arbitrary: al)
  case Nil
  then show ?case by simp
next
  case (Cons r rs)
  have "\<forall>kr \<in> set (file_release r al). fst kr = release_key (snd kr)"
    using Cons.prems set_update_subset [of "release_key r" r al]
    by (auto simp: file_release_def)
  then show ?case
    using Cons.IH by simp
qed

lemma FindToolsRequiredForBoard_success:
  assumes "FindToolsRequiredForBoard newer pm board = Inr (Inr rs)"
  shows "rs = map snd (fold file_release
            (spec_default_candidates newer pm
               @ spec_pinned pm (Dependencies (PlatformRelease board))) [])"
  using assms
    replace_tools_success [of pm "Dependencies (PlatformRelease board)" "default_tools newer pm"]
  by (auto simp: FindToolsRequiredForBoard_def Let_def default_tools_spec split: sum.splits)

lemma FindToolsRequiredForBoard_resolved:
  assumes "\<forall>d \<in> set (Dependencies (PlatformRelease board)). spec_resolve pm d \<noteq> None"
  shows "FindToolsRequiredForBoard newer pm board = Inr (Inr (map snd (fold file_release
            (spec_default_candidates newer pm
               @ spec_pinned pm (Dependencies (PlatformRelease board))) [])))"
  using replace_tools_resolved [OF assms, of "default_tools newer pm"]
  by (simp add: FindToolsRequiredForBoard_def Let_def default_tools_spec)

lemma distinct_map_outer: "distinct (map (\<lambda>x. f (g x)) xs) \<Longrightarrow> distinct (map g xs)"
  by (induction xs) auto

text \<open>
  C10: when \<^verbatim>\<open>FindToolsRequiredForBoard\<close> succeeds, no two positions of the
  returned list hold releases of the same tool of the same package: the tools the
  releases belong to, and even their "packager:tool" keys, are pairwise distinct.
\<close>

theorem FindToolsRequiredForBoard_one_release_per_tool:
  assumes "FindToolsRequiredForBoard newer pm board = Inr (Inr rs)"
  shows "distinct (map ToolRelease_Tool rs) \<and> distinct (map release_key rs)"
proof -
  let ?al = "fold file_release
     (spec_default_candidates newer pm
        @ spec_pinned pm (Dependencies (PlatformRelease board))) []"
  have rs: "rs = map snd ?al"
    using assms by (rule FindToolsRequiredForBoard_success)
  have "distinct (map fst ?al)"
    by (rule distinct_fold_file_release) simp
  moreover have "\<forall>kr \<in> set ?al. fst kr = release_key (snd kr)"
    by (rule own_key_fold_file_release) simp
  then have "map fst ?al = map (\<lambda>kr. release_key (snd kr)) ?al"
    by simp
  ultimately have "distinct (map (\<lambda>kr. release_key (snd kr)) ?al)"
    by (simp only:)
  then have keys: "distinct (map (\<lambda>r. Tool_String (ToolRelease_Tool r)) rs)"
    by (simp add: rs comp_def release_key_def)
  then have "distinct (map ToolRelease_Tool rs)"
    by (rule distinct_map_outer)
  with keys show ?thesis
    by (simp add: release_key_def [abs_def])
qed

theorem FindToolsRequiredForBoard_one_release_per_tool_witness:
  "FindToolsRequiredForBoard bytewise_newer example_manager (example_board ''5.4.0'')
     = Inr (Inr [example_release example_avr_gcc ''5.4.0'' True,
                 example_release example_avrdude ''6.3.0'' True])
   \<and> distinct (map ToolRelease_Tool [example_release example_avr_gcc ''5.4.0'' True,
                                     example_release example_avrdude ''6.3.0'' True])"
proof -
  have run: "FindToolsRequiredForBoard bytewise_newer example_manager (example_board ''5.4.0'')
     = Inr (Inr [example_release example_avr_gcc ''5.4.0'' True,
                 example_release example_avrdude ''6.3.0'' True])"
    by (simp add: FindToolsRequiredForBoard_eval example_defs)
  show ?thesis
    using run FindToolsRequiredForBoard_one_release_per_tool [OF run] by blast
qed

text \<open>
  C1: when every dependency the board's platform declares resolves,
  \<^verbatim>\<open>FindToolsRequiredForBoard\<close> succeeds, and its result holds exactly the values of
  the mapping built in two steps: the latest installed release of every tool of every
  package, filed by "packager:tool" identity, overlaid with the releases the declared
  dependencies resolve to, filed the same way. So a release is in the result exactly
  when it is the pinned release of its identity or, that identity not being pinned, its
  default release. With two tools \<open>a\<close> and \<open>b\<close>, the pinned release of \<open>a\<close> is therefore in
  the result, it is the only release of \<open>a\<close> there, and, \<open>b\<close> not being pinned,
  the default release of \<open>b\<close> is in the result too.
\<close>

theorem FindToolsRequiredForBoard_defaults_then_pins:
  assumes "\<forall>d \<in> set (Dependencies (PlatformRelease board)). spec_resolve pm d \<noteq> None"
  shows "\<exists>rs. FindToolsRequiredForBoard newer pm board = Inr (Inr rs)
            \<and> set rs = ran (keyed_map (spec_default_candidates newer pm)
                            ++ keyed_map (spec_pinned pm (Dependencies (PlatformRelease board))))
            \<and> (\<forall>r. r \<in> set rs \<longleftrightarrow>
                  keyed_map (spec_pinned pm (Dependencies (PlatformRelease board)))
                      (release_key r) = Some r
                  \<or> keyed_map (spec_pinned pm (Dependencies (PlatformRelease board)))
                      (release_key r) = None
                    \<and> keyed_map (spec_default_candidates newer pm) (release_key r) = Some r)
            \<and> (\<forall>pin dflt.
                  keyed_map (spec_pinned pm (Dependencies (PlatformRelease board)))
                      (release_key pin) = Some pin
                  \<and> keyed_map (spec_pinned pm (Dependencies (PlatformRelease board)))
                      (release_key dflt) = None
                  \<and> keyed_map (spec_default_candidates newer pm) (release_key dflt) = Some dflt
                  \<longrightarrow> pin \<in> set rs \<and> dflt \<in> set rs
                      \<and> (\<forall>r \<in> set rs. release_key r = release_key pin \<longrightarrow> r = pin))"
proof -
  let ?D = "keyed_map (spec_default_candidates newer pm)"
  let ?P = "keyed_map (spec_pinned pm (Dependencies (PlatformRelease board)))"
  let ?al = "fold file_release
     (spec_default_candidates newer pm
        @ spec_pinned pm (Dependencies (PlatformRelease board))) []"
  have "distinct (map fst ?al)"
    by (rule distinct_fold_file_release) simp
  then have "ran (map_of ?al) = snd ` set ?al"
    by (rule ran_distinct)
  then have elems: "set (map snd ?al) = ran (?D ++ ?P)"
    by (simp add: map_of_fold_file_release keyed_map_append)
  have member: "r \<in> ran (?D ++ ?P) \<longleftrightarrow>
          ?P (release_key r) = Some r \<or> ?P (release_key r) = None \<and> ?D (release_key r) = Some r"
    for r
  proof
    assume "r \<in> ran (?D ++ ?P)"
    then have "\<exists>k. (?D ++ ?P) k = Some r"
      by (simp only: ran_def mem_Collect_eq)
    then obtain k where k: "(?D ++ ?P) k = Some r" ..
    then have "k = release_key r"
      by (auto simp: map_add_Some_iff dest: keyed_map_own_key)
    with k show "?P (release_key r) = Some r
        \<or> ?P (release_key r) = None \<and> ?D (release_key r) = Some r"
      by (auto simp: map_add_Some_iff)
  next
    assume "?P (release_key r) = Some r
        \<or> ?P (release_key r) = None \<and> ?D (release_key r) = Some r"
    then have "(?D ++ ?P) (release_key r) = Some r"
      by (auto simp: map_add_Some_iff)
    then show "r \<in> ran (?D ++ ?P)"
      by (rule ranI)
  qed
  have scenario: "pin \<in> ran (?D ++ ?P) \<and> dflt \<in> ran (?D ++ ?P)
          \<and> (\<forall>r \<in> ran (?D ++ ?P). release_key r = release_key pin \<longrightarrow> r = pin)"
    if "?P (release_key pin) = Some pin \<and> ?P (release_key dflt) = None
          \<and> ?D (release_key dflt) = Some dflt" for pin dflt
    using that by (auto simp only: member option.inject option.distinct)
  let ?rs = "map snd ?al"
  have run: "FindToolsRequiredForBoard newer pm board = Inr (Inr ?rs)"
    using FindToolsRequiredForBoard_resolved [OF assms, of newer] by simp
  have members: "\<forall>r. r \<in> set ?rs \<longleftrightarrow>
        ?P (release_key r) = Some r \<or> ?P (release_key r) = None \<and> ?D (release_key r) = Some r"
    using member by (simp only: elems) blast
  have pinned: "\<forall>pin dflt. ?P (release_key pin) = Some pin \<and> ?P (release_key dflt) = None
          \<and> ?D (release_key dflt) = Some dflt
        \<longrightarrow> pin \<in> set ?rs \<and> dflt \<in> set ?rs
            \<and> (\<forall>r \<in> set ?rs. release_key r = release_key pin \<longrightarrow> r = pin)"
    using scenario by (simp only: elems) blast
  show ?thesis
    by (rule exI [of _ ?rs]) (intro conjI run elems members pinned)
qed

theorem FindToolsRequiredForBoard_defaults_then_pins_witness:
  "Dependencies (PlatformRelease (example_board ''4.9.2'')) = [example_dependency ''4.9.2'']
   \<and> spec_resolve example_manager (example_dependency ''4.9.2'')
       = Some (example_release example_avr_gcc ''4.9.2'' True)
   \<and> spec_default_candidates bytewise_newer example_manager
       = [example_release example_avr_gcc ''5.4.0'' True,
          example_release example_avrdude ''6.3.0'' True]
   \<and> spec_pinned example_manager (Dependencies (PlatformRelease (example_board ''4.9.2'')))
       = [example_release example_avr_gcc ''4.9.2'' True]
   \<and> FindToolsRequiredForBoard bytewise_newer example_manager (example_board ''4.9.2'')
       = Inr (Inr [example_release example_avr_gcc ''4.9.2'' True,
                   example_release example_avrdude ''6.3.0'' True])
   \<and> set [example_release example_avr_gcc ''4.9.2'' True,
           example_release example_avrdude ''6.3.0'' True]
       = ran (keyed_map (spec_default_candidates bytewise_newer example_manager)
              ++ keyed_map (spec_pinned example_manager
                    (Dependencies (PlatformRelease (example_board ''4.9.2'')))))"
proof -
  have resolves: "\<forall>d \<in> set (Dependencies (PlatformRelease (example_board ''4.9.2''))).
       spec_resolve example_manager d \<noteq> None"
    by (simp add: spec_resolve_def example_defs)
  have defaults: "spec_default_candidates bytewise_newer example_manager
       = [example_release example_avr_gcc ''5.4.0'' True,
          example_release example_avrdude ''6.3.0'' True]"
    by (simp add: spec_default_candidates_def GetLatestInstalled_def latest_step_def
        example_defs)
  have pins: "spec_pinned example_manager
        (Dependencies (PlatformRelease (example_board ''4.9.2'')))
       = [example_release example_avr_gcc ''4.9.2'' True]"
    by (simp add: spec_pinned_def spec_resolve_def example_defs)
  have run: "FindToolsRequiredForBoard bytewise_newer example_manager (example_board ''4.9.2'')
       = Inr (Inr [example_release example_avr_gcc ''4.9.2'' True,
                   example_release example_avrdude ''6.3.0'' True])"
    by (simp add: FindToolsRequiredForBoard_eval example_defs)
  have deps: "Dependencies (PlatformRelease (example_board ''4.9.2''))
                = [example_dependency ''4.9.2'']"
    and pin: "spec_resolve example_manager (example_dependency ''4.9.2'')
                = Some (example_release example_avr_gcc ''4.9.2'' True)"
    by (simp_all add: spec_resolve_def example_defs)
  show ?thesis
    using deps pin defaults pins run
      FindToolsRequiredForBoard_defaults_then_pins [OF resolves, of bytewise_newer]
    by (auto simp only: sum.inject)
qed

end
